theory Spec2Isabelle
  imports Main "HOL-Library.Word"
begin

unbundle bit_operations_syntax

section \<open>Data model of \<open>cvk_device\<close> (src/device.hpp)\<close>

text \<open>
  The Vulkan types used by the device come from \<open>vulkan/vulkan.h\<close>, which is not part
  of the repository. Modelled from the spec: a memory type is an entry of the device's
  fixed memory-type table carrying a property-flag bitmask; the table is the C array
  \<open>memoryTypes[VK_MAX_MEMORY_TYPES]\<close> together with the count \<open>memoryTypeCount\<close> of
  its entries that are in use.
\<close>

type_synonym VkMemoryPropertyFlags = "32 word"
type_synonym VkDeviceSize = "64 word"
type_synonym cl_mem_flags = "64 word"

record VkMemoryType =
  propertyFlags :: VkMemoryPropertyFlags
  heapIndex :: "32 word"

record VkPhysicalDeviceMemoryProperties =
  memoryTypeCount :: "32 word"
  memoryTypes :: "VkMemoryType list"

record VkMemoryRequirements =
  size_reqs :: VkDeviceSize
  alignment :: VkDeviceSize
  memoryTypeBits :: "32 word"

text \<open>
  Modelled from the spec: the constants of \<open>vulkan/vulkan.h\<close>. \<open>VK_MAX_MEMORY_TYPES\<close>
  is the length of the memory-type array and doubles as the "not found" sentinel.
\<close>

definition VK_MAX_MEMORY_TYPES :: "32 word" where
  "VK_MAX_MEMORY_TYPES = 32"

definition VK_MEMORY_PROPERTY_DEVICE_LOCAL_BIT :: VkMemoryPropertyFlags where
  "VK_MEMORY_PROPERTY_DEVICE_LOCAL_BIT = 1"

definition VK_MEMORY_PROPERTY_HOST_VISIBLE_BIT :: VkMemoryPropertyFlags where
  "VK_MEMORY_PROPERTY_HOST_VISIBLE_BIT = 2"

definition VK_MEMORY_PROPERTY_HOST_COHERENT_BIT :: VkMemoryPropertyFlags where
  "VK_MEMORY_PROPERTY_HOST_COHERENT_BIT = 4"

definition VK_MEMORY_PROPERTY_HOST_CACHED_BIT :: VkMemoryPropertyFlags where
  "VK_MEMORY_PROPERTY_HOST_CACHED_BIT = 8"

text \<open>
  The part of \<open>cvk_device\<close> the decision logic reads and writes: the memory properties
  filled in by the constructor, the queue pool and the round-robin cursor. The queue
  wrapper is opaque, hence a type parameter.
\<close>

record 'q cvk_device =
  m_mem_properties :: VkPhysicalDeviceMemoryProperties
  m_vulkan_queues :: "'q list"
  m_vulkan_queue_alloc_index :: "32 word"

record allocation_parameters =
  size_alloc :: VkDeviceSize
  memory_type_index :: "32 word"

text \<open>
  What C++ leaves undefined is an error value of the model: an array read outside its
  bounds, and a shift of a 64-bit value by 64 or more.
\<close>

datatype error = OutOfBounds | UndefinedShift

section \<open>Memory-type resolver\<close>

text \<open>
  The loop of the single-set \<open>memory_type_index_for_resource\<close> from its counter \<open>k\<close>
  on. \<open>1ULL << k\<close> is a 64-bit value and \<open>valid_memory_type_bits\<close> is zero-extended
  to 64 bits before the \<open>&\<close>; the result converts to \<open>bool\<close> as "not zero".
\<close>

function memory_type_index_for_resource_from ::
  "'q cvk_device \<Rightarrow> 32 word \<Rightarrow> VkMemoryPropertyFlags \<Rightarrow> 32 word \<Rightarrow> error + 32 word" where
  "memory_type_index_for_resource_from d valid_memory_type_bits required_properties k =
     (if k < memoryTypeCount (m_mem_properties d) then
        if length (memoryTypes (m_mem_properties d)) \<le> unat k then Inl OutOfBounds
        else if 64 \<le> unat k then Inl UndefinedShift
        else
          let dev_properties = propertyFlags (memoryTypes (m_mem_properties d) ! unat k);
              valid = (push_bit (unat k) (1 :: 64 word) AND ucast valid_memory_type_bits \<noteq> 0);
              satisfactory = (dev_properties AND required_properties = required_properties)
          in if satisfactory \<and> valid then Inr k
             else memory_type_index_for_resource_from d valid_memory_type_bits
                    required_properties (k + 1)
      else Inr VK_MAX_MEMORY_TYPES)"
  by pat_completeness auto
termination
proof (relation "measure (\<lambda>(d, b, r, k). unat (memoryTypeCount (m_mem_properties d)) - unat k)")
  show "wf (measure (\<lambda>(d :: 'q cvk_device, b :: 32 word, r :: VkMemoryPropertyFlags, k :: 32 word).
          unat (memoryTypeCount (m_mem_properties d)) - unat k))"
    by simp
next
  fix d :: "'q cvk_device" and b r k :: "32 word"
  assume lt: "k < memoryTypeCount (m_mem_properties d)"
  then have lt': "unat k < unat (memoryTypeCount (m_mem_properties d))"
    by (simp add: word_less_nat_alt)
  moreover have "unat (memoryTypeCount (m_mem_properties d)) < 2 ^ 32"
    using unsigned_less [of "memoryTypeCount (m_mem_properties d)"] by simp
  ultimately have "unat k + 1 < 2 ^ 32"
    by simp
  then have "unat (k + 1) = unat k + 1"
    by (simp add: unat_word_ariths)
  with lt' have "unat (memoryTypeCount (m_mem_properties d)) - unat (k + 1)
      < unat (memoryTypeCount (m_mem_properties d)) - unat k"
    by simp
  then show "((d, b, r, k + 1), (d, b, r, k))
      \<in> measure (\<lambda>(d, b, r, k). unat (memoryTypeCount (m_mem_properties d)) - unat k)"
    by simp
qed

declare memory_type_index_for_resource_from.simps [simp del]

definition memory_type_index_for_resource ::
  "'q cvk_device \<Rightarrow> 32 word \<Rightarrow> VkMemoryPropertyFlags \<Rightarrow> error + 32 word" where
  "memory_type_index_for_resource d valid_memory_type_bits required_properties =
     memory_type_index_for_resource_from d valid_memory_type_bits required_properties 0"

text \<open>
  The loop of the list-taking overload from its counter \<open>i\<close> on. \<open>num_supported\<close> and
  \<open>i\<close> are C \<open>int\<close>s; \<open>i\<close> stays below \<open>num_supported\<close>, so \<open>i++\<close> cannot overflow and
  both are modelled as \<open>int\<close>. \<open>supported_memory_types\<close> is a pointer to an array,
  modelled as the list of its elements. The debug log line before the return has no
  effect on the result and is left out.
\<close>

function memory_type_index_for_resource_list_from ::
  "'q cvk_device \<Rightarrow> 32 word \<Rightarrow> int \<Rightarrow> 32 word list \<Rightarrow> int \<Rightarrow> error + 32 word" where
  "memory_type_index_for_resource_list_from d valid_memory_type_bits num_supported
       supported_memory_types i =
     (if i < num_supported then
        if i < 0 \<or> int (length supported_memory_types) \<le> i then Inl OutOfBounds
        else
          case memory_type_index_for_resource d valid_memory_type_bits
                 (supported_memory_types ! nat i) of
            Inl e \<Rightarrow> Inl e
          | Inr k \<Rightarrow>
              if k \<noteq> VK_MAX_MEMORY_TYPES then Inr k
              else memory_type_index_for_resource_list_from d valid_memory_type_bits
                     num_supported supported_memory_types (i + 1)
      else Inr VK_MAX_MEMORY_TYPES)"
  by pat_completeness auto
termination
  by (relation "measure (\<lambda>(d, b, n, ps, i). nat (n - i))") auto

declare memory_type_index_for_resource_list_from.simps [simp del]

definition memory_type_index_for_resource_list ::
  "'q cvk_device \<Rightarrow> 32 word \<Rightarrow> int \<Rightarrow> 32 word list \<Rightarrow> error + 32 word" where
  "memory_type_index_for_resource_list d valid_memory_type_bits num_supported
       supported_memory_types =
     memory_type_index_for_resource_list_from d valid_memory_type_bits num_supported
       supported_memory_types 0"

text \<open>
  \<open>select_memory_for(VkBuffer, cl_mem_flags)\<close>. The driver call
  \<open>vkGetBufferMemoryRequirements\<close> is a parameter: a function from the buffer handle to
  the requirements the driver reports for it. \<open>ARRAY_SIZE\<close> of the two-entry array is 2.
\<close>

definition select_memory_for_buffer ::
  "'q cvk_device \<Rightarrow> ('b \<Rightarrow> VkMemoryRequirements) \<Rightarrow> 'b \<Rightarrow> cl_mem_flags
     \<Rightarrow> error + allocation_parameters" where
  "select_memory_for_buffer d vkGetBufferMemoryRequirements buffer flags =
     (let memreqs = vkGetBufferMemoryRequirements buffer;
          supported_memory_types =
            [VK_MEMORY_PROPERTY_HOST_VISIBLE_BIT OR VK_MEMORY_PROPERTY_HOST_CACHED_BIT
               OR VK_MEMORY_PROPERTY_HOST_COHERENT_BIT,
             VK_MEMORY_PROPERTY_HOST_VISIBLE_BIT OR VK_MEMORY_PROPERTY_HOST_COHERENT_BIT]
      in case memory_type_index_for_resource_list d (memoryTypeBits memreqs)
                (int (length supported_memory_types)) supported_memory_types of
           Inl e \<Rightarrow> Inl e
         | Inr k \<Rightarrow> Inr \<lparr>size_alloc = size_reqs memreqs, memory_type_index = k\<rparr>)"

section \<open>Queue allocator\<close>

text \<open>
  \<open>vulkan_queue_allocate\<close>: the read \<open>m_vulkan_queues[m_vulkan_queue_alloc_index++]\<close>
  uses the old cursor and is undefined outside the vector; the increment is a 32-bit one
  and wraps; the comparison with \<open>size()\<close> is made after converting the cursor to
  \<open>size_t\<close>, that is on its unsigned value. The updated device is returned with the queue.
\<close>

definition vulkan_queue_allocate :: "'q cvk_device \<Rightarrow> error + ('q \<times> 'q cvk_device)" where
  "vulkan_queue_allocate d =
     (if length (m_vulkan_queues d) \<le> unat (m_vulkan_queue_alloc_index d) then Inl OutOfBounds
      else
        let queue = m_vulkan_queues d ! unat (m_vulkan_queue_alloc_index d);
            d1 = d\<lparr>m_vulkan_queue_alloc_index := m_vulkan_queue_alloc_index d + 1\<rparr>;
            d2 = (if unat (m_vulkan_queue_alloc_index d1) = length (m_vulkan_queues d1)
                  then d1\<lparr>m_vulkan_queue_alloc_index := 0\<rparr> else d1)
        in Inr (queue, d2))"

text \<open>
  Repeated allocation: \<open>n\<close> calls of \<open>vulkan_queue_allocate\<close> in a row, each on the
  device the previous call left, collecting the queues returned in call order.
\<close>

fun vulkan_queue_allocate_times ::
  "nat \<Rightarrow> 'q cvk_device \<Rightarrow> error + ('q list \<times> 'q cvk_device)" where
  "vulkan_queue_allocate_times 0 d = Inr ([], d)"
| "vulkan_queue_allocate_times (Suc n) d =
     (case vulkan_queue_allocate d of
        Inl e \<Rightarrow> Inl e
      | Inr (queue, d') \<Rightarrow>
          (case vulkan_queue_allocate_times n d' of
             Inl e \<Rightarrow> Inl e
           | Inr (queues, d'') \<Rightarrow> Inr (queue # queues, d'')))"

section \<open>Well-formed devices\<close>

text \<open>
  Modelled from the spec: what device initialisation (the driver call in the
  constructor, whose code is not part of the repository) establishes. The memory-type
  array has \<open>VK_MAX_MEMORY_TYPES\<close> entries, of which the first \<open>memoryTypeCount\<close> are
  in use, so memory-type indices form the dense range from 0 to the count.
\<close>

definition valid_mem_properties :: "VkPhysicalDeviceMemoryProperties \<Rightarrow> bool" where
  "valid_mem_properties mp \<longleftrightarrow>
     length (memoryTypes mp) = unat VK_MAX_MEMORY_TYPES \<and>
     memoryTypeCount mp \<le> VK_MAX_MEMORY_TYPES"

text \<open>
  The eligibility test in the words of the spec: memory type \<open>i\<close> is a candidate iff
  its bit is set in the compatibility bitmask and its property flags are a superset of
  the required ones.
\<close>

definition eligible :: "'q cvk_device \<Rightarrow> 32 word \<Rightarrow> VkMemoryPropertyFlags \<Rightarrow> nat \<Rightarrow> bool" where
  "eligible d valid_memory_type_bits required_properties i \<longleftrightarrow>
     bit valid_memory_type_bits i \<and>
     propertyFlags (memoryTypes (m_mem_properties d) ! i) AND required_properties
       = required_properties"

text \<open>
  Modelled from the spec: a freshly initialised allocator has its cursor on the pool's
  first element (the assignment is made in \<open>device.cpp\<close>, of which only the
  declarations in \<open>device.hpp\<close> are at hand), and the pool is created from a
  \<open>uint32_t\<close> queue count (\<open>create_vulkan_queues_and_device\<close>), so it holds fewer
  than \<open>2 ^ 32\<close> queues.
\<close>

definition freshly_initialized :: "'q cvk_device \<Rightarrow> bool" where
  "freshly_initialized d \<longleftrightarrow>
     m_vulkan_queue_alloc_index d = 0 \<and> length (m_vulkan_queues d) < 2 ^ 32"

text \<open>
  The device of the spec's scenario: three memory types in use (device-local;
  host-visible and coherent; host-visible, cached and coherent) and a pool of three
  queues, named by numbers.
\<close>

definition example_memory_types :: "VkMemoryType list" where
  "example_memory_types =
     [\<lparr>propertyFlags = 1, heapIndex = 0\<rparr>,
      \<lparr>propertyFlags = 6, heapIndex = 1\<rparr>,
      \<lparr>propertyFlags = 14, heapIndex = 1\<rparr>]
     @ replicate 29 \<lparr>propertyFlags = 0, heapIndex = 0\<rparr>"

definition example_device :: "nat cvk_device" where
  "example_device =
     \<lparr>m_mem_properties = \<lparr>memoryTypeCount = 3, memoryTypes = example_memory_types\<rparr>,
      m_vulkan_queues = [10, 11, 12],
      m_vulkan_queue_alloc_index = 0\<rparr>"

section \<open>Auxiliary facts about the resolver loops\<close>

lemma unat_succ_below: "(k :: 32 word) < c \<Longrightarrow> unat (k + 1) = Suc (unat k)"
proof -
  assume "k < c"
  then have "unat k < unat c" by (simp add: word_less_nat_alt)
  moreover have "unat c < 2 ^ 32" using unsigned_less [of c] by simp
  ultimately have "unat k + 1 < 2 ^ 32" by simp
  then show ?thesis by (simp add: unat_word_ariths)
qed

lemma valid_bit_test:
  "((2 :: 64 word) ^ n AND ucast (b :: 32 word) \<noteq> 0) = bit b n"
proof -
  have "((2 :: 64 word) ^ n AND ucast b = 0) = (ucast b AND (2 :: 64 word) ^ n = 0)"
    by (simp add: and.commute)
  also have "\<dots> = (\<not> bit (ucast b :: 64 word) n)"
    by (rule and_exp_eq_0_iff_not_bit)
  also have "\<dots> = (\<not> bit b n)"
    by (auto simp add: bit_ucast_iff dest: bit_imp_le_length)
  finally show ?thesis by simp
qed

lemma from_unfold_step:
  assumes "k < memoryTypeCount (m_mem_properties d)"
    and "unat k < length (memoryTypes (m_mem_properties d))"
    and "unat k < 64"
  shows "memory_type_index_for_resource_from d b r k =
     (if eligible d b r (unat k) then Inr k
      else memory_type_index_for_resource_from d b r (k + 1))"
  using assms
  by (subst memory_type_index_for_resource_from.simps)
     (auto simp add: Let_def valid_bit_test eligible_def)

lemma from_unfold_end:
  "\<not> k < memoryTypeCount (m_mem_properties d) \<Longrightarrow>
     memory_type_index_for_resource_from d b r k = Inr VK_MAX_MEMORY_TYPES"
  by (subst memory_type_index_for_resource_from.simps) simp


lemma from_spec:
  assumes wf: "valid_mem_properties (m_mem_properties d)"
  shows "\<exists>r. memory_type_index_for_resource_from d b req k = Inr r \<and>
           ((r = VK_MAX_MEMORY_TYPES \<and>
             (\<forall>i. unat k \<le> i \<and> i < unat (memoryTypeCount (m_mem_properties d))
                  \<longrightarrow> \<not> eligible d b req i)) \<or>
            (k \<le> r \<and> r < memoryTypeCount (m_mem_properties d) \<and>
             eligible d b req (unat r) \<and>
             (\<forall>i. unat k \<le> i \<and> i < unat r \<longrightarrow> \<not> eligible d b req i)))"
proof (induction "unat (memoryTypeCount (m_mem_properties d)) - unat k" arbitrary: k)
  case 0
  then have "\<not> k < memoryTypeCount (m_mem_properties d)"
    by (simp add: word_less_nat_alt)
  moreover from 0 have "\<forall>i. \<not> (unat k \<le> i \<and> i < unat (memoryTypeCount (m_mem_properties d)))"
    by auto
  ultimately show ?case
    using from_unfold_end [of k d b req] by blast
next
  case (Suc n)
  then have lt: "k < memoryTypeCount (m_mem_properties d)"
    by (simp add: word_less_nat_alt)
  from wf have "unat (memoryTypeCount (m_mem_properties d)) \<le> 32"
    and len: "length (memoryTypes (m_mem_properties d)) = 32"
    by (simp_all add: valid_mem_properties_def VK_MAX_MEMORY_TYPES_def word_le_nat_alt)
  with lt have small: "unat k < 32"
    by (simp add: word_less_nat_alt)
  have step: "memory_type_index_for_resource_from d b req k =
     (if eligible d b req (unat k) then Inr k
      else memory_type_index_for_resource_from d b req (k + 1))"
    using lt small len by (intro from_unfold_step) simp_all
  show ?case
  proof (cases "eligible d b req (unat k)")
    case True
    with step lt show ?thesis by auto
  next
    case False
    have suc: "unat (k + 1) = Suc (unat k)"
      using lt by (rule unat_succ_below)
    with Suc.hyps(2) have "n = unat (memoryTypeCount (m_mem_properties d)) - unat (k + 1)"
      by simp
    from Suc.hyps(1) [OF this] obtain r where
      r: "memory_type_index_for_resource_from d b req (k + 1) = Inr r"
      and alt: "(r = VK_MAX_MEMORY_TYPES \<and>
             (\<forall>i. unat (k + 1) \<le> i \<and> i < unat (memoryTypeCount (m_mem_properties d))
                  \<longrightarrow> \<not> eligible d b req i)) \<or>
            (k + 1 \<le> r \<and> r < memoryTypeCount (m_mem_properties d) \<and>
             eligible d b req (unat r) \<and>
             (\<forall>i. unat (k + 1) \<le> i \<and> i < unat r \<longrightarrow> \<not> eligible d b req i))"
      by blast
    have below: "\<And>i. unat k \<le> i \<Longrightarrow> \<not> Suc (unat k) \<le> i \<Longrightarrow> \<not> eligible d b req i"
    proof -
      fix i assume "unat k \<le> i" "\<not> Suc (unat k) \<le> i"
      then have "i = unat k" by simp
      with False show "\<not> eligible d b req i" by simp
    qed
    from alt show ?thesis
    proof
      assume a: "r = VK_MAX_MEMORY_TYPES \<and>
             (\<forall>i. unat (k + 1) \<le> i \<and> i < unat (memoryTypeCount (m_mem_properties d))
                  \<longrightarrow> \<not> eligible d b req i)"
      then have "\<forall>i. unat k \<le> i \<and> i < unat (memoryTypeCount (m_mem_properties d))
                  \<longrightarrow> \<not> eligible d b req i"
        using below suc by metis
      with a step False r show ?thesis by simp
    next
      assume a: "k + 1 \<le> r \<and> r < memoryTypeCount (m_mem_properties d) \<and>
             eligible d b req (unat r) \<and>
             (\<forall>i. unat (k + 1) \<le> i \<and> i < unat r \<longrightarrow> \<not> eligible d b req i)"
      then have "\<forall>i. unat k \<le> i \<and> i < unat r \<longrightarrow> \<not> eligible d b req i"
        using below suc by metis
      moreover from a suc have "k \<le> r"
        by (simp add: word_le_nat_alt)
      ultimately show ?thesis
        using a step False r by simp
    qed
  qed
qed


lemma single_spec:
  assumes wf: "valid_mem_properties (m_mem_properties d)"
  shows "\<exists>r. memory_type_index_for_resource d b req = Inr r \<and>
           ((r = VK_MAX_MEMORY_TYPES \<and>
             (\<forall>i < unat (memoryTypeCount (m_mem_properties d)). \<not> eligible d b req i)) \<or>
            (r < memoryTypeCount (m_mem_properties d) \<and> eligible d b req (unat r) \<and>
             (\<forall>i < unat r. \<not> eligible d b req i)))"
  using from_spec [OF wf, of b req 0]
  by (simp add: memory_type_index_for_resource_def)

lemma count_below_sentinel:
  assumes wf: "valid_mem_properties (m_mem_properties d)"
    and "r < memoryTypeCount (m_mem_properties d)"
  shows "r \<noteq> VK_MAX_MEMORY_TYPES"
  using assms by (auto simp add: valid_mem_properties_def)

lemma single_total:
  assumes wf: "valid_mem_properties (m_mem_properties d)"
  shows "\<exists>r. memory_type_index_for_resource d b req = Inr r"
  using single_spec [OF wf, of b req] by blast

lemma list_from_find:
  "i \<le> length ps \<Longrightarrow>
     memory_type_index_for_resource_list_from d b (int (length ps)) ps (int i) =
       (case find (\<lambda>p. memory_type_index_for_resource d b p \<noteq> Inr VK_MAX_MEMORY_TYPES)
               (drop i ps) of
          None \<Rightarrow> Inr VK_MAX_MEMORY_TYPES
        | Some p \<Rightarrow> memory_type_index_for_resource d b p)"
proof (induction "length ps - i" arbitrary: i)
  case 0
  then have "drop i ps = []" and "\<not> int i < int (length ps)"
    by simp_all
  then show ?case
    by (subst memory_type_index_for_resource_list_from.simps) simp
next
  case (Suc n)
  then have lt: "i < length ps"
    by simp
  then have dr: "drop i ps = ps ! i # drop (Suc i) ps"
    by (simp add: Cons_nth_drop_Suc)
  from Suc.hyps(2) lt have "n = length ps - Suc i" and "Suc i \<le> length ps"
    by simp_all
  from Suc.hyps(1) [OF this]
  have ih: "memory_type_index_for_resource_list_from d b (int (length ps)) ps (int i + 1) =
       (case find (\<lambda>p. memory_type_index_for_resource d b p \<noteq> Inr VK_MAX_MEMORY_TYPES)
               (drop (Suc i) ps) of
          None \<Rightarrow> Inr VK_MAX_MEMORY_TYPES
        | Some p \<Rightarrow> memory_type_index_for_resource d b p)"
    by (simp add: add.commute)
  show ?case
  proof (cases "memory_type_index_for_resource d b (ps ! i)")
    case (Inl e)
    with lt dr show ?thesis
      by (subst memory_type_index_for_resource_list_from.simps) simp
  next
    case (Inr k)
    with lt dr ih show ?thesis
      by (subst memory_type_index_for_resource_list_from.simps) simp
  qed
qed

lemma list_find:
  "memory_type_index_for_resource_list d b (int (length ps)) ps =
       (case find (\<lambda>p. memory_type_index_for_resource d b p \<noteq> Inr VK_MAX_MEMORY_TYPES) ps of
          None \<Rightarrow> Inr VK_MAX_MEMORY_TYPES
        | Some p \<Rightarrow> memory_type_index_for_resource d b p)"
  using list_from_find [of 0 ps d b]
  by (simp add: memory_type_index_for_resource_list_def)

lemma list_total:
  assumes wf: "valid_mem_properties (m_mem_properties d)"
  shows "\<exists>r. memory_type_index_for_resource_list d b (int (length ps)) ps = Inr r"
proof (cases "find (\<lambda>p. memory_type_index_for_resource d b p \<noteq> Inr VK_MAX_MEMORY_TYPES) ps")
  case None
  then show ?thesis by (simp add: list_find)
next
  case (Some p)
  with single_total [OF wf, of b p] show ?thesis by (simp add: list_find)
qed

text \<open>
  The resolvers read nothing of the device but its memory properties, and the queue
  allocator writes nothing but its cursor.
\<close>

lemma from_frame:
  assumes eq: "m_mem_properties d1 = m_mem_properties d2"
  shows "memory_type_index_for_resource_from d1 b req k =
         memory_type_index_for_resource_from d2 b req k"
proof (induction "unat (memoryTypeCount (m_mem_properties d1)) - unat k" arbitrary: k)
  case 0
  then have "\<not> k < memoryTypeCount (m_mem_properties d1)"
    by (simp add: word_less_nat_alt)
  with eq show ?case
    by (simp add: from_unfold_end)
next
  case (Suc n)
  then have lt: "k < memoryTypeCount (m_mem_properties d1)"
    by (simp add: word_less_nat_alt)
  have "unat (k + 1) = Suc (unat k)"
    using lt by (rule unat_succ_below)
  with Suc.hyps(2) have "n = unat (memoryTypeCount (m_mem_properties d1)) - unat (k + 1)"
    by simp
  then have ih: "memory_type_index_for_resource_from d1 b req (k + 1) =
         memory_type_index_for_resource_from d2 b req (k + 1)"
    by (rule Suc.hyps(1))
  show ?case
    apply (subst memory_type_index_for_resource_from.simps [of d1])
    apply (subst memory_type_index_for_resource_from.simps [of d2])
    apply (simp only: eq [symmetric] ih)
    done
qed


lemma single_frame:
  "m_mem_properties d1 = m_mem_properties d2 \<Longrightarrow>
     memory_type_index_for_resource d1 b req = memory_type_index_for_resource d2 b req"
  using from_frame [of d1 d2 b req 0] by (simp add: memory_type_index_for_resource_def)

lemma list_from_frame:
  assumes eq: "m_mem_properties d1 = m_mem_properties d2"
  shows "memory_type_index_for_resource_list_from d1 b n ps i =
         memory_type_index_for_resource_list_from d2 b n ps i"
proof (induction "nat (n - i)" arbitrary: i)
  case 0
  then have "\<not> i < n" by simp
  then show ?case
    apply (subst memory_type_index_for_resource_list_from.simps [of d1])
    apply (subst memory_type_index_for_resource_list_from.simps [of d2])
    apply simp
    done
next
  case (Suc m)
  then have "m = nat (n - (i + 1))" by simp
  then have ih: "memory_type_index_for_resource_list_from d1 b n ps (i + 1) =
         memory_type_index_for_resource_list_from d2 b n ps (i + 1)"
    by (rule Suc.hyps(1))
  show ?case
    apply (subst memory_type_index_for_resource_list_from.simps [of d1])
    apply (subst memory_type_index_for_resource_list_from.simps [of d2])
    apply (simp add: single_frame [OF eq] ih split: sum.splits)
    done
qed

lemma list_frame:
  "m_mem_properties d1 = m_mem_properties d2 \<Longrightarrow>
     memory_type_index_for_resource_list d1 b n ps = memory_type_index_for_resource_list d2 b n ps"
  using list_from_frame [of d1 d2 b n ps 0] by (simp add: memory_type_index_for_resource_list_def)

lemma allocate_frame:
  "vulkan_queue_allocate d = Inr (q, d') \<Longrightarrow>
     m_mem_properties d' = m_mem_properties d \<and> m_vulkan_queues d' = m_vulkan_queues d"
  by (auto simp add: vulkan_queue_allocate_def Let_def split: if_splits)

lemma example_device_valid: "valid_mem_properties (m_mem_properties example_device)"
  by (simp add: valid_mem_properties_def example_device_def example_memory_types_def
      VK_MAX_MEMORY_TYPES_def)

section \<open>Auxiliary facts about the queue allocator\<close>

lemma allocate_step:
  assumes "unat (m_vulkan_queue_alloc_index d) < length (m_vulkan_queues d)"
  shows "vulkan_queue_allocate d =
     Inr (m_vulkan_queues d ! unat (m_vulkan_queue_alloc_index d),
          d\<lparr>m_vulkan_queue_alloc_index :=
               (if unat (m_vulkan_queue_alloc_index d + 1) = length (m_vulkan_queues d)
                then 0 else m_vulkan_queue_alloc_index d + 1)\<rparr>)"
  using assms by (simp add: vulkan_queue_allocate_def Let_def)

lemma cursor_advance:
  fixes c :: "32 word"
  assumes "unat c < N"
  shows "unat (if unat (c + 1) = N then 0 else c + 1) < N"
    and "N \<le> 2 ^ 32 \<Longrightarrow> unat (if unat (c + 1) = N then 0 else c + 1) = (unat c + 1) mod N"
proof -
  have u: "unat c < 2 ^ 32"
    using unsigned_less [of c] by simp
  have suc: "unat (c + 1) = (unat c + 1) mod 2 ^ 32"
    by (simp add: unat_word_ariths)
  show "unat (if unat (c + 1) = N then 0 else c + 1) < N"
  proof (cases "unat c + 1 < 2 ^ 32")
    case True
    with suc have "unat (c + 1) = unat c + 1" by simp
    with assms show ?thesis by auto
  next
    case False
    with u have "unat c + 1 = 2 ^ 32" by simp
    with suc have "unat (c + 1) = 0" by simp
    with assms show ?thesis by auto
  qed
  show "unat (if unat (c + 1) = N then 0 else c + 1) = (unat c + 1) mod N" if le: "N \<le> 2 ^ 32"
  proof (cases "unat c + 1 < 2 ^ 32")
    case True
    with suc have "unat (c + 1) = unat c + 1" by simp
    with assms show ?thesis by auto
  next
    case False
    with u have top: "unat c + 1 = 2 ^ 32" by simp
    with suc have z: "unat (c + 1) = 0" by simp
    from top assms le have "N = 2 ^ 32" by simp
    with z top show ?thesis by simp
  qed
qed

lemma times_add:
  "vulkan_queue_allocate_times (m + n) d =
     (case vulkan_queue_allocate_times m d of
        Inl e \<Rightarrow> Inl e
      | Inr (qs1, d1) \<Rightarrow>
          (case vulkan_queue_allocate_times n d1 of
             Inl e \<Rightarrow> Inl e
           | Inr (qs2, d2) \<Rightarrow> Inr (qs1 @ qs2, d2)))"
  by (induction m arbitrary: d) (simp_all split: sum.splits prod.splits)

lemma times_total:
  assumes "unat (m_vulkan_queue_alloc_index d) < length (m_vulkan_queues d)"
  shows "\<exists>qs d'. vulkan_queue_allocate_times n d = Inr (qs, d') \<and> length qs = n \<and>
           m_vulkan_queues d' = m_vulkan_queues d \<and>
           unat (m_vulkan_queue_alloc_index d') < length (m_vulkan_queues d')"
  using assms
proof (induction n arbitrary: d)
  case 0
  then show ?case by simp
next
  case (Suc n)
  let ?d1 = "d\<lparr>m_vulkan_queue_alloc_index :=
               (if unat (m_vulkan_queue_alloc_index d + 1) = length (m_vulkan_queues d)
                then 0 else m_vulkan_queue_alloc_index d + 1)\<rparr>"
  have "unat (m_vulkan_queue_alloc_index ?d1) < length (m_vulkan_queues ?d1)"
    using cursor_advance(1) [OF Suc.prems] by simp
  from Suc.IH [OF this] obtain qs d' where
    "vulkan_queue_allocate_times n ?d1 = Inr (qs, d')" "length qs = n"
    "m_vulkan_queues d' = m_vulkan_queues ?d1"
    "unat (m_vulkan_queue_alloc_index d') < length (m_vulkan_queues d')"
    by blast
  then show ?case
    by (simp add: allocate_step [OF Suc.prems])
qed

lemma times_to_end:
  assumes "length (m_vulkan_queues d) < 2 ^ 32"
    and "unat (m_vulkan_queue_alloc_index d) < length (m_vulkan_queues d)"
  shows "vulkan_queue_allocate_times
           (length (m_vulkan_queues d) - unat (m_vulkan_queue_alloc_index d)) d =
         Inr (drop (unat (m_vulkan_queue_alloc_index d)) (m_vulkan_queues d),
              d\<lparr>m_vulkan_queue_alloc_index := 0\<rparr>)"
  using assms
proof (induction "length (m_vulkan_queues d) - unat (m_vulkan_queue_alloc_index d)" arbitrary: d)
  case 0
  then show ?case by simp
next
  case (Suc n)
  let ?c = "m_vulkan_queue_alloc_index d"
  let ?N = "length (m_vulkan_queues d)"
  let ?d1 = "d\<lparr>m_vulkan_queue_alloc_index := (if unat (?c + 1) = ?N then 0 else ?c + 1)\<rparr>"
  have lt: "unat ?c < ?N" by fact
  have suc: "unat (?c + 1) = unat ?c + 1"
    using lt Suc.prems(1) by (simp add: unat_word_ariths)
  have dr: "drop (unat ?c) (m_vulkan_queues d) =
            m_vulkan_queues d ! unat ?c # drop (Suc (unat ?c)) (m_vulkan_queues d)"
    using lt by (simp add: Cons_nth_drop_Suc)
  have times: "vulkan_queue_allocate_times (Suc n) d =
     (case vulkan_queue_allocate_times n ?d1 of
        Inl e \<Rightarrow> Inl e
      | Inr (queues, d'') \<Rightarrow> Inr (m_vulkan_queues d ! unat ?c # queues, d''))"
    by (simp add: allocate_step [OF lt])
  show ?case
  proof (cases "unat ?c + 1 = ?N")
    case True
    with Suc.hyps(2) have "n = 0" by simp
    moreover from True have "drop (Suc (unat ?c)) (m_vulkan_queues d) = []" by simp
    ultimately show ?thesis
      using True suc dr times Suc.hyps(2) [symmetric] by simp
  next
    case False
    then have d1: "?d1 = d\<lparr>m_vulkan_queue_alloc_index := ?c + 1\<rparr>"
      using suc by simp
    have "n = length (m_vulkan_queues ?d1) - unat (m_vulkan_queue_alloc_index ?d1)"
      using Suc.hyps(2) False suc by simp
    moreover have "length (m_vulkan_queues ?d1) < 2 ^ 32"
      using Suc.prems(1) by simp
    moreover have "unat (m_vulkan_queue_alloc_index ?d1) < length (m_vulkan_queues ?d1)"
      using False suc lt by simp
    ultimately have "vulkan_queue_allocate_times
           (length (m_vulkan_queues ?d1) - unat (m_vulkan_queue_alloc_index ?d1)) ?d1 =
         Inr (drop (unat (m_vulkan_queue_alloc_index ?d1)) (m_vulkan_queues ?d1),
              ?d1\<lparr>m_vulkan_queue_alloc_index := 0\<rparr>)"
      by (rule Suc.hyps(1))
    moreover have "length (m_vulkan_queues ?d1) - unat (m_vulkan_queue_alloc_index ?d1) = n"
      using Suc.hyps(2) False suc by simp
    ultimately have "vulkan_queue_allocate_times n ?d1 =
         Inr (drop (Suc (unat ?c)) (m_vulkan_queues d), d\<lparr>m_vulkan_queue_alloc_index := 0\<rparr>)"
      using False suc by simp
    with times dr Suc.hyps(2) [symmetric] show ?thesis by simp
  qed
qed

section \<open>The scenarios of the spec\<close>

text \<open>
  On the example device and the fallback list cached-and-coherent, then coherent-only:
  bitmask \<open>0b110\<close> gives index 2, bitmask \<open>0b010\<close> gives index 1, and bitmask
  \<open>0b001\<close> gives the sentinel.
\<close>

lemma scenario_cached_preferred:
  "memory_type_index_for_resource_list example_device 6 2 [14, 6] = Inr 2"
  by code_simp

lemma scenario_falls_back:
  "memory_type_index_for_resource_list example_device 2 2 [14, 6] = Inr 1"
  by code_simp

lemma scenario_device_local_only:
  "memory_type_index_for_resource_list example_device 1 2 [14, 6] = Inr VK_MAX_MEMORY_TYPES"
  by code_simp

section \<open>The single-set resolver\<close>

text \<open>
  C1: on a well-formed device, for every compatibility bitmask and every required
  property set, the single-set \<open>memory_type_index_for_resource\<close> returns a value, and
  that value is either the sentinel \<open>VK_MAX_MEMORY_TYPES\<close> or the index of a memory
  type in use whose bit is set in the bitmask and whose property flags contain every
  required flag.
\<close>

theorem memory_type_index_for_resource_sound:
  assumes "valid_mem_properties (m_mem_properties d)"
  shows "\<exists>r. memory_type_index_for_resource d valid_memory_type_bits required_properties = Inr r \<and>
           (r = VK_MAX_MEMORY_TYPES \<or>
            (r < memoryTypeCount (m_mem_properties d) \<and>
             bit valid_memory_type_bits (unat r) \<and>
             propertyFlags (memoryTypes (m_mem_properties d) ! unat r) AND required_properties
               = required_properties))"
  using single_spec [OF assms, of valid_memory_type_bits required_properties]
  by (auto simp add: eligible_def)

theorem memory_type_index_for_resource_sound_witness:
  "valid_mem_properties (m_mem_properties example_device) \<and>
   memory_type_index_for_resource example_device 6 6 = Inr 1 \<and>
   (1 :: 32 word) < memoryTypeCount (m_mem_properties example_device) \<and>
   bit (6 :: 32 word) (unat (1 :: 32 word)) \<and>
   propertyFlags (memoryTypes (m_mem_properties example_device) ! unat (1 :: 32 word)) AND 6 = 6"
proof -
  have v: "valid_mem_properties (m_mem_properties example_device)"
    by (rule example_device_valid)
  have e: "memory_type_index_for_resource example_device 6 6 = Inr 1"
    by code_simp
  from memory_type_index_for_resource_sound [OF v, of 6 6] e
  have "(1 :: 32 word) = VK_MAX_MEMORY_TYPES \<or>
        ((1 :: 32 word) < memoryTypeCount (m_mem_properties example_device) \<and>
         bit (6 :: 32 word) (unat (1 :: 32 word)) \<and>
         propertyFlags (memoryTypes (m_mem_properties example_device) ! unat (1 :: 32 word)) AND 6 = 6)"
    by simp
  with v e show ?thesis
    by (simp add: VK_MAX_MEMORY_TYPES_def)
qed

text \<open>
  C4: on a well-formed device, if some memory type \<open>j\<close> in use is eligible (its bit is
  set in the bitmask and its flags contain the required ones), the single-set resolver
  returns an eligible index that is not the sentinel, is at most \<open>j\<close>, and has no
  eligible index below it: the lowest-indexed eligible type.
\<close>

theorem memory_type_index_for_resource_first_fit:
  assumes "valid_mem_properties (m_mem_properties d)"
    and "j < unat (memoryTypeCount (m_mem_properties d))"
    and "eligible d valid_memory_type_bits required_properties j"
  shows "\<exists>r. memory_type_index_for_resource d valid_memory_type_bits required_properties = Inr r \<and>
           r \<noteq> VK_MAX_MEMORY_TYPES \<and> unat r \<le> j \<and>
           eligible d valid_memory_type_bits required_properties (unat r) \<and>
           (\<forall>i < unat r. \<not> eligible d valid_memory_type_bits required_properties i)"
proof -
  from single_spec [OF assms(1), of valid_memory_type_bits required_properties]
  obtain r where r: "memory_type_index_for_resource d valid_memory_type_bits required_properties = Inr r"
    and alt: "(r = VK_MAX_MEMORY_TYPES \<and>
             (\<forall>i < unat (memoryTypeCount (m_mem_properties d)).
                 \<not> eligible d valid_memory_type_bits required_properties i)) \<or>
            (r < memoryTypeCount (m_mem_properties d) \<and>
             eligible d valid_memory_type_bits required_properties (unat r) \<and>
             (\<forall>i < unat r. \<not> eligible d valid_memory_type_bits required_properties i))"
    by blast
  from alt assms(2,3) have found: "r < memoryTypeCount (m_mem_properties d) \<and>
             eligible d valid_memory_type_bits required_properties (unat r) \<and>
             (\<forall>i < unat r. \<not> eligible d valid_memory_type_bits required_properties i)"
    by blast
  then have "r \<noteq> VK_MAX_MEMORY_TYPES"
    using count_below_sentinel [OF assms(1)] by blast
  moreover from found assms(3) have "unat r \<le> j"
    by (meson not_le)
  ultimately show ?thesis
    using r found by blast
qed

theorem memory_type_index_for_resource_first_fit_witness:
  "valid_mem_properties (m_mem_properties example_device) \<and>
   2 < unat (memoryTypeCount (m_mem_properties example_device)) \<and>
   eligible example_device 6 6 2 \<and> eligible example_device 6 6 1 \<and>
   memory_type_index_for_resource example_device 6 6 = Inr 1 \<and>
   \<not> eligible example_device 6 6 0"
proof -
  have v: "valid_mem_properties (m_mem_properties example_device)"
    by (rule example_device_valid)
  have c: "2 < unat (memoryTypeCount (m_mem_properties example_device))"
    by (simp add: example_device_def)
  have e2: "eligible example_device 6 6 2"
    by code_simp
  have e: "memory_type_index_for_resource example_device 6 6 = Inr 1"
    by code_simp
  from memory_type_index_for_resource_first_fit [OF v c e2] e
  have "eligible example_device 6 6 (unat (1 :: 32 word)) \<and>
        (\<forall>i < unat (1 :: 32 word). \<not> eligible example_device 6 6 i)"
    by simp
  then have "eligible example_device 6 6 1 \<and> \<not> eligible example_device 6 6 0"
    by simp
  with v c e2 e show ?thesis
    by simp
qed

section \<open>The fallback resolver\<close>

text \<open>
  C2: on a well-formed device, for every compatibility bitmask and every list of
  property sets (passed with its length), the list-taking
  \<open>memory_type_index_for_resource\<close> returns a value, namely the result of the
  single-set resolver on the first set of the list whose result is not the sentinel, and
  the sentinel when there is no such set. For a two-element list \<open>[A, B]\<close> this is the
  result for \<open>A\<close> when that is not the sentinel and the result for \<open>B\<close> otherwise.
\<close>

theorem memory_type_index_for_resource_list_first_match:
  assumes "valid_mem_properties (m_mem_properties d)"
  shows "(\<exists>r. memory_type_index_for_resource_list d valid_memory_type_bits
                (int (length supported_memory_types)) supported_memory_types = Inr r) \<and>
         memory_type_index_for_resource_list d valid_memory_type_bits
             (int (length supported_memory_types)) supported_memory_types =
           (case find (\<lambda>p. memory_type_index_for_resource d valid_memory_type_bits p
                              \<noteq> Inr VK_MAX_MEMORY_TYPES) supported_memory_types of
              None \<Rightarrow> Inr VK_MAX_MEMORY_TYPES
            | Some p \<Rightarrow> memory_type_index_for_resource d valid_memory_type_bits p) \<and>
         memory_type_index_for_resource_list d valid_memory_type_bits 2 [A, B] =
           (if memory_type_index_for_resource d valid_memory_type_bits A
                 \<noteq> Inr VK_MAX_MEMORY_TYPES
            then memory_type_index_for_resource d valid_memory_type_bits A
            else memory_type_index_for_resource d valid_memory_type_bits B)"
proof -
  have "memory_type_index_for_resource_list d valid_memory_type_bits 2 [A, B] =
           (if memory_type_index_for_resource d valid_memory_type_bits A
                 \<noteq> Inr VK_MAX_MEMORY_TYPES
            then memory_type_index_for_resource d valid_memory_type_bits A
            else memory_type_index_for_resource d valid_memory_type_bits B)"
    using list_find [of d valid_memory_type_bits "[A, B]"] by simp
  then show ?thesis
    using list_total [OF assms, of valid_memory_type_bits supported_memory_types]
      list_find [of d valid_memory_type_bits supported_memory_types]
    by blast
qed

theorem memory_type_index_for_resource_list_first_match_witness:
  "valid_mem_properties (m_mem_properties example_device) \<and>
   memory_type_index_for_resource example_device 2 14 = Inr VK_MAX_MEMORY_TYPES \<and>
   memory_type_index_for_resource example_device 2 6 = Inr 1 \<and>
   memory_type_index_for_resource_list example_device 2 2 [14, 6] = Inr 1"
proof -
  have v: "valid_mem_properties (m_mem_properties example_device)"
    by (rule example_device_valid)
  have a: "memory_type_index_for_resource example_device 2 14 = Inr VK_MAX_MEMORY_TYPES"
    by code_simp
  have b: "memory_type_index_for_resource example_device 2 6 = Inr 1"
    by code_simp
  from memory_type_index_for_resource_list_first_match [OF v, of 2 "[14, 6]" 14 6] a b
  have "memory_type_index_for_resource_list example_device 2 2 [14, 6] = Inr 1"
    by simp
  with v a b show ?thesis
    by simp
qed

text \<open>
  C8: for every compatibility bitmask, the list-taking resolver called with an empty
  list of property sets returns the sentinel, on any device.
\<close>

theorem memory_type_index_for_resource_list_empty:
  "memory_type_index_for_resource_list d valid_memory_type_bits 0 [] = Inr VK_MAX_MEMORY_TYPES"
  using list_find [of d valid_memory_type_bits "[]"] by simp

text \<open>
  C5: on a well-formed device, with an all-zero compatibility bitmask the single-set
  resolver returns the sentinel for every required property set, and the list-taking
  resolver returns the sentinel for every list of property sets.
\<close>

theorem zero_bitmask_not_found:
  assumes "valid_mem_properties (m_mem_properties d)"
  shows "memory_type_index_for_resource d 0 required_properties = Inr VK_MAX_MEMORY_TYPES \<and>
         memory_type_index_for_resource_list d 0 (int (length supported_memory_types))
           supported_memory_types = Inr VK_MAX_MEMORY_TYPES"
proof -
  have single: "memory_type_index_for_resource d 0 p = Inr VK_MAX_MEMORY_TYPES" for p
    using single_spec [OF assms, of 0 p] by (auto simp add: eligible_def)
  then have "find (\<lambda>p. memory_type_index_for_resource d 0 p \<noteq> Inr VK_MAX_MEMORY_TYPES)
               supported_memory_types = None"
    by (simp add: find_None_iff)
  then show ?thesis
    using single by (simp add: list_find)
qed

theorem zero_bitmask_not_found_witness:
  "valid_mem_properties (m_mem_properties example_device) \<and>
   memory_type_index_for_resource example_device 0 1 = Inr 32 \<and>
   memory_type_index_for_resource_list example_device 0 3 [14, 6, 0] = Inr 32"
  using zero_bitmask_not_found [OF example_device_valid, of 1 "[14, 6, 0]"] example_device_valid
  by (simp add: VK_MAX_MEMORY_TYPES_def)

section \<open>Placement of a buffer\<close>

text \<open>
  C6: on a well-formed device, \<open>select_memory_for\<close> on a buffer returns an allocation
  decision whose size is the size the driver reports in the buffer's memory
  requirements, and whose memory-type index is the result of the list-taking resolver
  on the reported compatibility bitmask and the two-entry list host-visible, cached and
  coherent, then host-visible and coherent.
\<close>

theorem select_memory_for_buffer_decision:
  assumes "valid_mem_properties (m_mem_properties d)"
  shows "\<exists>k. memory_type_index_for_resource_list d
                 (memoryTypeBits (vkGetBufferMemoryRequirements buffer)) 2
                 [VK_MEMORY_PROPERTY_HOST_VISIBLE_BIT OR VK_MEMORY_PROPERTY_HOST_CACHED_BIT
                    OR VK_MEMORY_PROPERTY_HOST_COHERENT_BIT,
                  VK_MEMORY_PROPERTY_HOST_VISIBLE_BIT OR VK_MEMORY_PROPERTY_HOST_COHERENT_BIT]
               = Inr k \<and>
             select_memory_for_buffer d vkGetBufferMemoryRequirements buffer flags =
               Inr \<lparr>size_alloc = size_reqs (vkGetBufferMemoryRequirements buffer),
                    memory_type_index = k\<rparr>"
proof -
  let ?ps = "[VK_MEMORY_PROPERTY_HOST_VISIBLE_BIT OR VK_MEMORY_PROPERTY_HOST_CACHED_BIT
                    OR VK_MEMORY_PROPERTY_HOST_COHERENT_BIT,
              VK_MEMORY_PROPERTY_HOST_VISIBLE_BIT OR VK_MEMORY_PROPERTY_HOST_COHERENT_BIT]"
  from list_total [OF assms, of "memoryTypeBits (vkGetBufferMemoryRequirements buffer)" ?ps]
  obtain k where "memory_type_index_for_resource_list d
                 (memoryTypeBits (vkGetBufferMemoryRequirements buffer)) 2 ?ps = Inr k"
    by auto
  then show ?thesis
    by (simp add: select_memory_for_buffer_def Let_def)
qed

theorem select_memory_for_buffer_decision_witness:
  "valid_mem_properties (m_mem_properties example_device) \<and>
   memory_type_index_for_resource_list example_device 6 2 [14, 6] = Inr 2 \<and>
   select_memory_for_buffer example_device
       (\<lambda>b :: unit. \<lparr>size_reqs = 4096, alignment = 256, memoryTypeBits = 6\<rparr>) () 1 =
     Inr \<lparr>size_alloc = 4096, memory_type_index = 2\<rparr>"
proof -
  have v: "valid_mem_properties (m_mem_properties example_device)"
    by (rule example_device_valid)
  have e: "memory_type_index_for_resource_list example_device 6 2 [14, 6] = Inr 2"
    by code_simp
  have c: "[VK_MEMORY_PROPERTY_HOST_VISIBLE_BIT OR VK_MEMORY_PROPERTY_HOST_CACHED_BIT
                    OR VK_MEMORY_PROPERTY_HOST_COHERENT_BIT,
            VK_MEMORY_PROPERTY_HOST_VISIBLE_BIT OR VK_MEMORY_PROPERTY_HOST_COHERENT_BIT]
           = [14, 6 :: 32 word]"
    by (simp add: VK_MEMORY_PROPERTY_HOST_VISIBLE_BIT_def VK_MEMORY_PROPERTY_HOST_CACHED_BIT_def
        VK_MEMORY_PROPERTY_HOST_COHERENT_BIT_def)
  from select_memory_for_buffer_decision [OF v,
      of "\<lambda>b :: unit. \<lparr>size_reqs = 4096, alignment = 256, memoryTypeBits = 6\<rparr>" "()" 1]
  have "select_memory_for_buffer example_device
       (\<lambda>b :: unit. \<lparr>size_reqs = 4096, alignment = 256, memoryTypeBits = 6\<rparr>) () 1 =
     Inr \<lparr>size_alloc = 4096, memory_type_index = 2\<rparr>"
    unfolding c using e by simp
  with v e show ?thesis
    by simp
qed

text \<open>
  C10: the decision for a buffer does not depend on the \<open>cl_mem_flags\<close> argument: for
  the same device, driver report and buffer, any two flag values give the same result.
\<close>

theorem select_memory_for_buffer_ignores_flags:
  "select_memory_for_buffer d vkGetBufferMemoryRequirements buffer flags1 =
   select_memory_for_buffer d vkGetBufferMemoryRequirements buffer flags2"
  by (simp add: select_memory_for_buffer_def)

section \<open>Determinism of the resolvers\<close>

text \<open>
  C9: both resolvers are functions of the device's memory-type table and their
  arguments alone. Two devices with the same memory properties, whatever their queue
  pools and cursors, give the same result for the same bitmask and the same required
  set, and for the same bitmask and the same list; in particular a call of the queue
  allocator, the one operation that changes the device, changes no resolver result. The
  resolvers themselves are \<open>const\<close> member functions: they return a value and no
  changed device.
\<close>

theorem memory_type_index_for_resource_deterministic:
  "(m_mem_properties d1 = m_mem_properties d2 \<longrightarrow>
      memory_type_index_for_resource d1 valid_memory_type_bits required_properties =
        memory_type_index_for_resource d2 valid_memory_type_bits required_properties \<and>
      memory_type_index_for_resource_list d1 valid_memory_type_bits num_supported
          supported_memory_types =
        memory_type_index_for_resource_list d2 valid_memory_type_bits num_supported
          supported_memory_types) \<and>
   (vulkan_queue_allocate d1 = Inr (queue, d3) \<longrightarrow>
      memory_type_index_for_resource d3 valid_memory_type_bits required_properties =
        memory_type_index_for_resource d1 valid_memory_type_bits required_properties \<and>
      memory_type_index_for_resource_list d3 valid_memory_type_bits num_supported
          supported_memory_types =
        memory_type_index_for_resource_list d1 valid_memory_type_bits num_supported
          supported_memory_types)"
proof (intro conjI impI)
  assume eq: "m_mem_properties d1 = m_mem_properties d2"
  show "memory_type_index_for_resource d1 valid_memory_type_bits required_properties =
        memory_type_index_for_resource d2 valid_memory_type_bits required_properties"
    using eq by (rule single_frame)
  show "memory_type_index_for_resource_list d1 valid_memory_type_bits num_supported
          supported_memory_types =
        memory_type_index_for_resource_list d2 valid_memory_type_bits num_supported
          supported_memory_types"
    using eq by (rule list_frame)
next
  assume "vulkan_queue_allocate d1 = Inr (queue, d3)"
  then have eq: "m_mem_properties d3 = m_mem_properties d1"
    by (rule allocate_frame [THEN conjunct1])
  show "memory_type_index_for_resource d3 valid_memory_type_bits required_properties =
        memory_type_index_for_resource d1 valid_memory_type_bits required_properties"
    using eq by (rule single_frame)
  show "memory_type_index_for_resource_list d3 valid_memory_type_bits num_supported
          supported_memory_types =
        memory_type_index_for_resource_list d1 valid_memory_type_bits num_supported
          supported_memory_types"
    using eq by (rule list_frame)
qed

theorem memory_type_index_for_resource_deterministic_witness:
  "m_mem_properties example_device =
     m_mem_properties (example_device\<lparr>m_vulkan_queues := [7], m_vulkan_queue_alloc_index := 5\<rparr>) \<and>
   vulkan_queue_allocate example_device =
     Inr (10, example_device\<lparr>m_vulkan_queue_alloc_index := 1\<rparr>) \<and>
   memory_type_index_for_resource
       (example_device\<lparr>m_vulkan_queues := [7], m_vulkan_queue_alloc_index := 5\<rparr>) 6 6 = Inr 1 \<and>
   memory_type_index_for_resource_list
       (example_device\<lparr>m_vulkan_queues := [7], m_vulkan_queue_alloc_index := 5\<rparr>) 6 2 [14, 6]
     = Inr 2 \<and>
   memory_type_index_for_resource (example_device\<lparr>m_vulkan_queue_alloc_index := 1\<rparr>) 6 6
     = Inr 1 \<and>
   memory_type_index_for_resource_list (example_device\<lparr>m_vulkan_queue_alloc_index := 1\<rparr>)
       6 2 [14, 6] = Inr 2"
proof -
  have m: "m_mem_properties example_device =
     m_mem_properties (example_device\<lparr>m_vulkan_queues := [7], m_vulkan_queue_alloc_index := 5\<rparr>)"
    by simp
  have a: "vulkan_queue_allocate example_device =
     Inr (10, example_device\<lparr>m_vulkan_queue_alloc_index := 1\<rparr>)"
    by (simp add: vulkan_queue_allocate_def example_device_def Let_def)
  have s: "memory_type_index_for_resource example_device 6 6 = Inr 1"
    by code_simp
  have l: "memory_type_index_for_resource_list example_device 6 2 [14, 6] = Inr 2"
    by code_simp
  note th = memory_type_index_for_resource_deterministic
         [of example_device
             "example_device\<lparr>m_vulkan_queues := [7], m_vulkan_queue_alloc_index := 5\<rparr>"
             6 6 2 "[14, 6]" 10 "example_device\<lparr>m_vulkan_queue_alloc_index := 1\<rparr>"]
  from th m have
    "memory_type_index_for_resource example_device 6 6 =
       memory_type_index_for_resource
         (example_device\<lparr>m_vulkan_queues := [7], m_vulkan_queue_alloc_index := 5\<rparr>) 6 6"
    "memory_type_index_for_resource_list example_device 6 2 [14, 6] =
       memory_type_index_for_resource_list
         (example_device\<lparr>m_vulkan_queues := [7], m_vulkan_queue_alloc_index := 5\<rparr>) 6 2 [14, 6]"
    by blast+
  moreover from th a have
    "memory_type_index_for_resource (example_device\<lparr>m_vulkan_queue_alloc_index := 1\<rparr>) 6 6 =
       memory_type_index_for_resource example_device 6 6"
    "memory_type_index_for_resource_list (example_device\<lparr>m_vulkan_queue_alloc_index := 1\<rparr>)
         6 2 [14, 6] =
       memory_type_index_for_resource_list example_device 6 2 [14, 6]"
    by blast+
  ultimately show ?thesis
    using m a s l by (simp only: simp_thms)
qed

section \<open>Round-robin allocation of queues\<close>

text \<open>
  C7: in every device whose queue pool is not empty and whose cursor is below the pool
  size, \<open>vulkan_queue_allocate\<close> returns the queue under the cursor and leaves a
  device with the same pool and a cursor that is again below the pool size. For a pool
  of at most \<open>2 ^ 32\<close> queues the new cursor is the old one plus one modulo the pool
  size.
\<close>

theorem vulkan_queue_allocate_cursor_invariant:
  assumes "m_vulkan_queues d \<noteq> []"
    and "unat (m_vulkan_queue_alloc_index d) < length (m_vulkan_queues d)"
  shows "\<exists>queue d'. vulkan_queue_allocate d = Inr (queue, d') \<and>
           queue = m_vulkan_queues d ! unat (m_vulkan_queue_alloc_index d) \<and>
           m_vulkan_queues d' = m_vulkan_queues d \<and>
           unat (m_vulkan_queue_alloc_index d') < length (m_vulkan_queues d') \<and>
           (length (m_vulkan_queues d) \<le> 2 ^ 32 \<longrightarrow>
              unat (m_vulkan_queue_alloc_index d') =
                (unat (m_vulkan_queue_alloc_index d) + 1) mod length (m_vulkan_queues d))"
  using allocate_step [OF assms(2)] cursor_advance [OF assms(2)]
  by simp

theorem vulkan_queue_allocate_cursor_invariant_witness:
  "m_vulkan_queues (example_device\<lparr>m_vulkan_queue_alloc_index := 2\<rparr>) \<noteq> [] \<and>
   unat (m_vulkan_queue_alloc_index (example_device\<lparr>m_vulkan_queue_alloc_index := 2\<rparr>))
     < length (m_vulkan_queues (example_device\<lparr>m_vulkan_queue_alloc_index := 2\<rparr>)) \<and>
   length (m_vulkan_queues (example_device\<lparr>m_vulkan_queue_alloc_index := 2\<rparr>)) \<le> 2 ^ 32 \<and>
   vulkan_queue_allocate (example_device\<lparr>m_vulkan_queue_alloc_index := 2\<rparr>) =
     Inr (12, example_device)"
proof -
  let ?d = "example_device\<lparr>m_vulkan_queue_alloc_index := 2\<rparr>"
  have n: "m_vulkan_queues ?d \<noteq> []"
    by (simp add: example_device_def)
  have c: "unat (m_vulkan_queue_alloc_index ?d) < length (m_vulkan_queues ?d)"
    by (simp add: example_device_def)
  have le: "length (m_vulkan_queues ?d) \<le> 2 ^ 32"
    by (simp add: example_device_def)
  from vulkan_queue_allocate_cursor_invariant [OF n c] le
  obtain queue d' where r: "vulkan_queue_allocate ?d = Inr (queue, d')"
    and q: "queue = m_vulkan_queues ?d ! unat (m_vulkan_queue_alloc_index ?d)"
    and m: "unat (m_vulkan_queue_alloc_index d') =
              (unat (m_vulkan_queue_alloc_index ?d) + 1) mod length (m_vulkan_queues ?d)"
    by blast
  from q have "queue = 12"
    by (simp add: example_device_def)
  moreover from r have "d' = ?d\<lparr>m_vulkan_queue_alloc_index := m_vulkan_queue_alloc_index d'\<rparr>"
    by (auto simp add: vulkan_queue_allocate_def Let_def split: if_splits)
  moreover from m have "m_vulkan_queue_alloc_index d' = 0"
    by (simp add: example_device_def unat_eq_0)
  ultimately have "vulkan_queue_allocate ?d = Inr (12, example_device)"
    using r by (simp add: example_device_def)
  with n c le show ?thesis
    by simp
qed

text \<open>
  C3: from a freshly initialised device (cursor on the first queue, pool created from
  a 32-bit count) with a non-empty pool of \<open>N\<close> queues, the first \<open>N\<close> calls of
  \<open>vulkan_queue_allocate\<close> return the queues of the pool, each once and in pool
  order, and leave the device as it was; hence for every \<open>k\<close> the first \<open>N + k\<close>
  calls return the pool followed by what the first \<open>k\<close> calls return.
\<close>

theorem vulkan_queue_allocate_round_robin:
  assumes "freshly_initialized d" and "m_vulkan_queues d \<noteq> []"
  shows "vulkan_queue_allocate_times (length (m_vulkan_queues d)) d =
           Inr (m_vulkan_queues d, d) \<and>
         (\<exists>queues d'. vulkan_queue_allocate_times k d = Inr (queues, d') \<and>
            length queues = k \<and>
            vulkan_queue_allocate_times (length (m_vulkan_queues d) + k) d =
              Inr (m_vulkan_queues d @ queues, d'))"
proof -
  from assms have zero: "m_vulkan_queue_alloc_index d = 0"
    and small: "length (m_vulkan_queues d) < 2 ^ 32"
    and inv: "unat (m_vulkan_queue_alloc_index d) < length (m_vulkan_queues d)"
    by (simp_all add: freshly_initialized_def)
  from zero have same: "d\<lparr>m_vulkan_queue_alloc_index := 0\<rparr> = d"
    by simp
  have cycle: "vulkan_queue_allocate_times (length (m_vulkan_queues d)) d =
           Inr (m_vulkan_queues d, d)"
    using times_to_end [OF small inv] zero same by simp
  from times_total [OF inv, of k] obtain queues d' where
    "vulkan_queue_allocate_times k d = Inr (queues, d')" "length queues = k"
    by blast
  with cycle show ?thesis
    by (simp add: times_add)
qed

theorem vulkan_queue_allocate_round_robin_witness:
  "freshly_initialized example_device \<and> m_vulkan_queues example_device \<noteq> [] \<and>
   vulkan_queue_allocate_times 3 example_device = Inr ([10, 11, 12], example_device) \<and>
   vulkan_queue_allocate_times 2 example_device =
     Inr ([10, 11], example_device\<lparr>m_vulkan_queue_alloc_index := 2\<rparr>) \<and>
   vulkan_queue_allocate_times 5 example_device =
     Inr ([10, 11, 12, 10, 11], example_device\<lparr>m_vulkan_queue_alloc_index := 2\<rparr>)"
proof -
  have f: "freshly_initialized example_device"
    by (simp add: freshly_initialized_def example_device_def)
  have n: "m_vulkan_queues example_device \<noteq> []"
    by (simp add: example_device_def)
  have q: "m_vulkan_queues example_device = [10, 11, 12]"
    by (simp add: example_device_def)
  have two: "vulkan_queue_allocate_times 2 example_device =
     Inr ([10, 11], example_device\<lparr>m_vulkan_queue_alloc_index := 2\<rparr>)"
    by code_simp
  have len: "length (m_vulkan_queues example_device) = 3"
    by (simp add: example_device_def)
  have five: "(3 :: nat) + 2 = 5"
    by simp
  note th = vulkan_queue_allocate_round_robin [OF f n, of 2, unfolded len five]
  from th have three: "vulkan_queue_allocate_times 3 example_device =
      Inr (m_vulkan_queues example_device, example_device)"
    by blast
  from th obtain queues d' where
    k: "vulkan_queue_allocate_times 2 example_device = Inr (queues, d')" and
    nk: "vulkan_queue_allocate_times 5 example_device =
      Inr (m_vulkan_queues example_device @ queues, d')"
    by blast
  from k two have "queues = [10, 11]" "d' = example_device\<lparr>m_vulkan_queue_alloc_index := 2\<rparr>"
    by simp_all
  with nk q have "vulkan_queue_allocate_times 5 example_device =
      Inr ([10, 11, 12, 10, 11], example_device\<lparr>m_vulkan_queue_alloc_index := 2\<rparr>)"
    by simp
  with f n two three q show ?thesis
    by (simp only: simp_thms)
qed

end
